theory Spec2Isabelle
  imports Main "HOL-Library.Sublist" "HOL-Library.Multiset"
begin

section \<open>The timetable scheduling engine\<close>

text \<open>
  A shallow embedding of \<^verbatim>\<open>server/services/schedulingEngine.ts\<close> (class
  \<^verbatim>\<open>SchedulingEngine\<close>) over the row types of \<^verbatim>\<open>shared/schema.ts\<close>.
  Numbers are \<^typ>\<open>int\<close>, nullable columns are \<^typ>\<open>'a option\<close>, the engine's mutable
  fields and the two local accumulators of \<^verbatim>\<open>generateSchedule\<close> are threaded through
  the functions as a record, and the rows returned by the storage layer are a record of
  lists (the catalog). Only the columns the engine reads are kept.
\<close>

subsection \<open>Rows of the schema\<close>

datatype dayOfWeek = monday | tuesday | wednesday | thursday | friday

datatype constraintType = hard | soft

datatype constraintScope =
  scope_subject | scope_teacher | scope_class | scope_room | scope_global

record Class =
  c_id :: int
  c_name :: string

record Subject =
  s_id :: int
  s_name :: string
  s_weeklyHours :: int

text \<open>
  One window of a teacher's availability, as the availability grid of the client writes
  it: \<^verbatim>\<open>{ start, end, available }\<close>. The engine reads \<^verbatim>\<open>start\<close> and \<^verbatim>\<open>end\<close> only.
\<close>

record AvailabilitySlot =
  a_start :: string
  a_end :: string
  a_available :: bool

text \<open>
  The \<^verbatim>\<open>availability\<close> column is JSON: \<^verbatim>\<open>null\<close> is \<open>None\<close>, an object is a map
  from the day to its list of windows (a missing key is \<open>None\<close>). The engine reads the
  value at this shape without checking it; the model covers the values that have it.
\<close>

record Teacher =
  t_id :: int
  t_name :: string
  t_maxClassesPerDay :: "int option"
  t_maxClassesPerWeek :: "int option"
  t_availability :: "(dayOfWeek \<rightharpoonup> AvailabilitySlot list) option"

record Room =
  r_id :: int
  r_isAvailable :: "bool option"

record TimePeriod =
  tp_id :: int
  tp_name :: string
  tp_startTime :: string
  tp_endTime :: string
  tp_dayOfWeek :: dayOfWeek
  tp_isBreak :: "bool option"
  tp_orderIndex :: int

record ClassSubject =
  cs_classId :: int
  cs_subjectId :: int
  cs_teacherId :: "int option"
  cs_preferredRoomId :: "int option"

record TeacherSubject =
  ts_teacherId :: int
  ts_subjectId :: int

record Constraint =
  k_type :: constraintType
  k_scope :: constraintScope
  k_targetId :: "int option"
  k_isActive :: bool

record InsertTimetableEntry =
  classId :: int
  subjectId :: int
  teacherId :: int
  roomId :: "int option"
  timePeriodId :: int
  weekNumber :: int
  isGenerated :: bool

subsection \<open>Interfaces of the engine\<close>

record SchedulingOptions =
  optimizeTeacherWorkload :: bool
  minimizeRoomChanges :: bool
  prioritizeMorningClasses :: bool
  enforceHardConstraints :: bool
  respectSoftConstraints :: bool

record Stats =
  st_totalClasses :: int
  st_totalEntries :: int
  st_conflictsResolved :: int

record SchedulingResult =
  success :: bool
  timetableEntries :: "InsertTimetableEntry list"
  stats :: Stats
  res_conflicts :: "string list"
  errors :: "string list option"

record TeacherWorkload =
  w_teacherId :: int
  classesPerDay :: "dayOfWeek \<Rightarrow> int"
  totalClasses :: int

record ConflictCheck =
  teacherConflicts :: bool
  roomConflicts :: bool
  classConflicts :: bool

text \<open>An element of the array \<^verbatim>\<open>findSuitableTimeSlots\<close> returns.\<close>

record Slot =
  slot_timePeriodId :: int
  slot_timePeriod :: TimePeriod
  slot_teacherId :: int
  slot_roomId :: "int option"

text \<open>
  What \<^verbatim>\<open>loadData\<close> reads, and the \<^verbatim>\<open>teacher_subjects\<close> table that
  \<^verbatim>\<open>storage.getSubjectTeachers\<close> selects from.
\<close>

record Catalog =
  classes :: "Class list"
  subjects :: "Subject list"
  teachers :: "Teacher list"
  rooms :: "Room list"
  timePeriods :: "TimePeriod list"
  classSubjects :: "ClassSubject list"
  constraints :: "Constraint list"
  teacherSubjects :: "TeacherSubject list"

text \<open>
  The state of a run: the fields \<^verbatim>\<open>teacherWorkloads\<close> and \<^verbatim>\<open>generatedEntries\<close> of
  the engine, and the locals \<^verbatim>\<open>conflicts\<close> and \<^verbatim>\<open>conflictsResolved\<close> of
  \<^verbatim>\<open>generateSchedule\<close>.
\<close>

record Run =
  teacherWorkloads :: "int \<rightharpoonup> TeacherWorkload"
  generatedEntries :: "InsertTimetableEntry list"
  conflicts :: "string list"
  conflictsResolved :: int

subsection \<open>JavaScript values\<close>

text \<open>Truthiness of a nullable number: \<^verbatim>\<open>null\<close>, \<^verbatim>\<open>undefined\<close> and \<^verbatim>\<open>0\<close> are falsy.\<close>

definition truthyNum :: "int option \<Rightarrow> bool" where
  "truthyNum v = (case v of None \<Rightarrow> False | Some n \<Rightarrow> n \<noteq> 0)"

text \<open>Truthiness of a nullable boolean.\<close>

definition truthyBool :: "bool option \<Rightarrow> bool" where
  "truthyBool v = (case v of None \<Rightarrow> False | Some b \<Rightarrow> b)"

text \<open>\<^verbatim>\<open>a || b\<close> where \<^verbatim>\<open>b\<close> is a number.\<close>

definition orNum :: "int option \<Rightarrow> int \<Rightarrow> int" where
  "orNum a b = (case a of None \<Rightarrow> b | Some n \<Rightarrow> if n \<noteq> 0 then n else b)"

text \<open>\<^verbatim>\<open>a || b\<close> where \<^verbatim>\<open>b\<close> may be \<^verbatim>\<open>undefined\<close>.\<close>

definition orOpt :: "int option \<Rightarrow> int option \<Rightarrow> int option" where
  "orOpt a b = (if truthyNum a then a else b)"

text \<open>
  \<^verbatim>\<open>parseInt(s)\<close> with no radix: leading white space is skipped, a sign is read, a
  \<^verbatim>\<open>0x\<close> prefix selects base 16, and the longest run of digits is the value; with no
  digit the result is \<^verbatim>\<open>NaN\<close>, here \<open>None\<close>. White space is the ASCII part of the
  language's white space, and the value is the exact integer.
\<close>

definition isWhiteSpace :: "char \<Rightarrow> bool" where
  "isWhiteSpace c = (c \<in> set [CHR 0x09, CHR 0x0A, CHR 0x0B, CHR 0x0C, CHR 0x0D, CHR '' ''])"

definition digitValue :: "char \<Rightarrow> nat option" where
  "digitValue c =
     (let n = (of_char c :: nat) in
      if 48 \<le> n \<and> n \<le> 57 then Some (n - 48)
      else if 97 \<le> n \<and> n \<le> 122 then Some (n - 87)
      else if 65 \<le> n \<and> n \<le> 90 then Some (n - 55)
      else None)"

definition isRadixDigit :: "nat \<Rightarrow> char \<Rightarrow> bool" where
  "isRadixDigit r c = (case digitValue c of None \<Rightarrow> False | Some d \<Rightarrow> d < r)"

definition digitsValue :: "nat \<Rightarrow> string \<Rightarrow> int" where
  "digitsValue r ds =
     foldl (\<lambda>acc c. acc * int r + int (case digitValue c of None \<Rightarrow> 0 | Some d \<Rightarrow> d)) 0 ds"

definition parseInt :: "string \<Rightarrow> int option" where
  "parseInt s =
     (let s1 = dropWhile isWhiteSpace s;
          sign = (if take 1 s1 = ''-'' then - 1 else 1 :: int);
          s2 = (if take 1 s1 = ''-'' \<or> take 1 s1 = ''+'' then drop 1 s1 else s1);
          hex = (take 2 s2 = ''0x'' \<or> take 2 s2 = ''0X'');
          r = (if hex then 16 else 10 :: nat);
          s3 = (if hex then drop 2 s2 else s2);
          z = takeWhile (isRadixDigit r) s3
      in if z = [] then None else Some (sign * digitsValue r z))"

text \<open>\<^verbatim>\<open>parseInt(t.split(':')[0])\<close>: the text before the first colon, parsed.\<close>

definition hourOf :: "string \<Rightarrow> int option" where
  "hourOf t = parseInt (takeWhile (\<lambda>c. c \<noteq> CHR '':'') t)"

text \<open>\<^verbatim>\<open>a >= b\<close> and \<^verbatim>\<open>a <= b\<close> on numbers: false as soon as one side is \<^verbatim>\<open>NaN\<close>.\<close>

definition numGe :: "int option \<Rightarrow> int option \<Rightarrow> bool" where
  "numGe a b = (case (a, b) of (Some x, Some y) \<Rightarrow> x \<ge> y | _ \<Rightarrow> False)"

definition numLe :: "int option \<Rightarrow> int option \<Rightarrow> bool" where
  "numLe a b = (case (a, b) of (Some x, Some y) \<Rightarrow> x \<le> y | _ \<Rightarrow> False)"

text \<open>A number in a template literal: decimal digits, with a minus sign when negative.\<close>

fun showNat :: "nat \<Rightarrow> string" where
  "showNat n =
     (if n < 10 then [''0123456789'' ! n]
      else showNat (n div 10) @ [''0123456789'' ! (n mod 10)])"

declare showNat.simps [simp del]

definition showInt :: "int \<Rightarrow> string" where
  "showInt i = (if i < 0 then ''-'' @ showNat (nat (- i)) else showNat (nat i))"

subsection \<open>Workload tracking\<close>

text \<open>\<^verbatim>\<open>initializeWorkloadTracking\<close>: the map is cleared, then one zeroed record per teacher.\<close>

definition zeroWorkload :: "int \<Rightarrow> TeacherWorkload" where
  "zeroWorkload i = \<lparr>w_teacherId = i, classesPerDay = (\<lambda>d. 0), totalClasses = 0\<rparr>"

definition initializeWorkloadTracking :: "Teacher list \<Rightarrow> (int \<rightharpoonup> TeacherWorkload)" where
  "initializeWorkloadTracking ts =
     foldl (\<lambda>m t. m(t_id t \<mapsto> zeroWorkload (t_id t))) Map.empty ts"

text \<open>\<^verbatim>\<open>updateTeacherWorkload\<close>: both counters of a tracked teacher go up by one.\<close>

definition updateTeacherWorkload :: "Run \<Rightarrow> int \<Rightarrow> dayOfWeek \<Rightarrow> Run" where
  "updateTeacherWorkload st tid d =
     (case teacherWorkloads st tid of
        None \<Rightarrow> st
      | Some w \<Rightarrow>
          st\<lparr>teacherWorkloads := (teacherWorkloads st)(tid \<mapsto>
               w\<lparr>classesPerDay := (classesPerDay w)(d := classesPerDay w d + 1),
                 totalClasses := totalClasses w + 1\<rparr>)\<rparr>)"

text \<open>\<^verbatim>\<open>checkTeacherWorkloadConstraints\<close>; the options are not read.\<close>

definition checkTeacherWorkloadConstraints ::
  "Run \<Rightarrow> Teacher \<Rightarrow> TimePeriod \<Rightarrow> SchedulingOptions \<Rightarrow> bool" where
  "checkTeacherWorkloadConstraints st teacher timePeriod opts =
     (case teacherWorkloads st (t_id teacher) of
        None \<Rightarrow> False
      | Some workload \<Rightarrow>
          (let dayClasses = classesPerDay workload (tp_dayOfWeek timePeriod) in
           if dayClasses \<ge> orNum (t_maxClassesPerDay teacher) 6 then False
           else if totalClasses workload \<ge> orNum (t_maxClassesPerWeek teacher) 30 then False
           else True))"

subsection \<open>Availability\<close>

text \<open>\<^verbatim>\<open>isTeacherAvailable\<close>.\<close>

definition isTeacherAvailable :: "Teacher \<Rightarrow> TimePeriod \<Rightarrow> bool" where
  "isTeacherAvailable teacher timePeriod =
     (case t_availability teacher of
        None \<Rightarrow> True
      | Some availability \<Rightarrow>
          (case availability (tp_dayOfWeek timePeriod) of
             None \<Rightarrow> False
           | Some dayAvailability \<Rightarrow>
               (let startHour = hourOf (tp_startTime timePeriod);
                    endHour = hourOf (tp_endTime timePeriod)
                in list_ex (\<lambda>slot.
                     (let slotStart = hourOf (a_start slot);
                          slotEnd = hourOf (a_end slot)
                      in numGe startHour slotStart \<and> numLe endHour slotEnd)) dayAvailability)))"

subsection \<open>Teachers and rooms for a slot\<close>

text \<open>
  \<^verbatim>\<open>getAvailableTeachers\<close>: the rows of \<^verbatim>\<open>teacher_subjects\<close> for the subject, each
  mapped to the first catalog teacher with that id, the misses dropped.
\<close>

definition getSubjectTeachers :: "Catalog \<Rightarrow> int \<Rightarrow> TeacherSubject list" where
  "getSubjectTeachers cat sid = filter (\<lambda>ts. ts_subjectId ts = sid) (teacherSubjects cat)"

definition getAvailableTeachers :: "Catalog \<Rightarrow> int \<Rightarrow> Teacher list" where
  "getAvailableTeachers cat sid =
     List.map_filter (\<lambda>ts. find (\<lambda>t. t_id t = ts_teacherId ts) (teachers cat))
       (getSubjectTeachers cat sid)"

text \<open>\<^verbatim>\<open>isRoomAvailable\<close>: no committed entry has the room in the period.\<close>

definition isRoomAvailable :: "Run \<Rightarrow> Room \<Rightarrow> TimePeriod \<Rightarrow> bool" where
  "isRoomAvailable st room timePeriod =
     (\<not> list_ex (\<lambda>entry. roomId entry = Some (r_id room) \<and> timePeriodId entry = tp_id timePeriod)
          (generatedEntries st))"

text \<open>\<^verbatim>\<open>findSuitableRoom\<close>.\<close>

definition findAnyRoom :: "Catalog \<Rightarrow> Run \<Rightarrow> TimePeriod \<Rightarrow> Room option" where
  "findAnyRoom cat st timePeriod =
     find (\<lambda>room. truthyBool (r_isAvailable room) \<and> isRoomAvailable st room timePeriod) (rooms cat)"

definition findSuitableRoom :: "Catalog \<Rightarrow> Run \<Rightarrow> ClassSubject \<Rightarrow> TimePeriod \<Rightarrow> Room option" where
  "findSuitableRoom cat st classSubject timePeriod =
     (if truthyNum (cs_preferredRoomId classSubject) then
        (case find (\<lambda>r. Some (r_id r) = cs_preferredRoomId classSubject) (rooms cat) of
           Some preferredRoom \<Rightarrow>
             if isRoomAvailable st preferredRoom timePeriod then Some preferredRoom
             else findAnyRoom cat st timePeriod
         | None \<Rightarrow> findAnyRoom cat st timePeriod)
      else findAnyRoom cat st timePeriod)"

subsection \<open>The slot finder\<close>

text \<open>
  The comparison function handed to \<^verbatim>\<open>sort\<close>. A \<^verbatim>\<open>NaN\<close> result counts as \<open>0\<close>,
  as \<^verbatim>\<open>Array.prototype.sort\<close> reads it.
\<close>

definition comparePeriods :: "SchedulingOptions \<Rightarrow> TimePeriod \<Rightarrow> TimePeriod \<Rightarrow> int" where
  "comparePeriods opts a b =
     (if prioritizeMorningClasses opts then
        (case (hourOf (tp_startTime a), hourOf (tp_startTime b)) of
           (Some aHour, Some bHour) \<Rightarrow> aHour - bHour
         | _ \<Rightarrow> 0)
      else tp_orderIndex a - tp_orderIndex b)"

text \<open>
  \<^verbatim>\<open>Array.prototype.sort\<close> is a stable sort: with a consistent comparison function
  its result is the one of the stable insertion sort below. (With an inconsistent one,
  which here needs an unparsable start time, the language leaves the order open.)
\<close>

fun insertBy :: "('a \<Rightarrow> 'a \<Rightarrow> int) \<Rightarrow> 'a \<Rightarrow> 'a list \<Rightarrow> 'a list" where
  "insertBy cmp x [] = [x]"
| "insertBy cmp x (y # ys) = (if cmp x y \<le> 0 then x # y # ys else y # insertBy cmp x ys)"

definition sortBy :: "('a \<Rightarrow> 'a \<Rightarrow> int) \<Rightarrow> 'a list \<Rightarrow> 'a list" where
  "sortBy cmp xs = foldr (insertBy cmp) xs []"

definition sortedTimePeriods :: "SchedulingOptions \<Rightarrow> TimePeriod list \<Rightarrow> TimePeriod list" where
  "sortedTimePeriods opts tps =
     sortBy (comparePeriods opts) (filter (\<lambda>tp. \<not> truthyBool (tp_isBreak tp)) tps)"

text \<open>
  The two nested loops of \<^verbatim>\<open>findSuitableTimeSlots\<close>. The inner loop keeps the first
  teacher that is available and under the caps, and looks for a room only then.
\<close>

definition firstTeacher ::
  "Run \<Rightarrow> SchedulingOptions \<Rightarrow> Teacher list \<Rightarrow> TimePeriod \<Rightarrow> Teacher option" where
  "firstTeacher st opts availableTeachers timePeriod =
     find (\<lambda>teacher. isTeacherAvailable teacher timePeriod
                    \<and> checkTeacherWorkloadConstraints st teacher timePeriod opts)
       availableTeachers"

fun scanPeriods ::
  "Catalog \<Rightarrow> Run \<Rightarrow> SchedulingOptions \<Rightarrow> ClassSubject \<Rightarrow> int \<Rightarrow> Teacher list
     \<Rightarrow> TimePeriod list \<Rightarrow> Slot list \<Rightarrow> Slot list" where
  "scanPeriods cat st opts classSubject periodsNeeded availableTeachers [] suitableSlots =
     suitableSlots"
| "scanPeriods cat st opts classSubject periodsNeeded availableTeachers (timePeriod # rest)
     suitableSlots =
     (if int (length suitableSlots) \<ge> periodsNeeded then suitableSlots
      else
        (case firstTeacher st opts availableTeachers timePeriod of
           None \<Rightarrow>
             scanPeriods cat st opts classSubject periodsNeeded availableTeachers rest suitableSlots
         | Some teacher \<Rightarrow>
             scanPeriods cat st opts classSubject periodsNeeded availableTeachers rest
               (suitableSlots @
                 [\<lparr>slot_timePeriodId = tp_id timePeriod,
                   slot_timePeriod = timePeriod,
                   slot_teacherId = t_id teacher,
                   slot_roomId =
                     map_option r_id (findSuitableRoom cat st classSubject timePeriod)\<rparr>])))"

definition findSuitableTimeSlots ::
  "Catalog \<Rightarrow> Run \<Rightarrow> ClassSubject \<Rightarrow> int \<Rightarrow> SchedulingOptions \<Rightarrow> Slot list" where
  "findSuitableTimeSlots cat st classSubject periodsNeeded opts =
     scanPeriods cat st opts classSubject periodsNeeded
       (getAvailableTeachers cat (cs_subjectId classSubject))
       (sortedTimePeriods opts (timePeriods cat)) []"

subsection \<open>Conflicts\<close>

text \<open>\<^verbatim>\<open>checkConflicts\<close>.\<close>

definition checkConflicts :: "Run \<Rightarrow> InsertTimetableEntry \<Rightarrow> ConflictCheck" where
  "checkConflicts st entry =
     \<lparr>teacherConflicts =
        list_ex (\<lambda>existing. teacherId existing = teacherId entry
                           \<and> timePeriodId existing = timePeriodId entry) (generatedEntries st),
      roomConflicts =
        (if truthyNum (roomId entry) then
           list_ex (\<lambda>existing. roomId existing = roomId entry
                              \<and> timePeriodId existing = timePeriodId entry) (generatedEntries st)
         else False),
      classConflicts =
        list_ex (\<lambda>existing. classId existing = classId entry
                           \<and> timePeriodId existing = timePeriodId entry) (generatedEntries st)\<rparr>"

text \<open>
  \<^verbatim>\<open>resolveConflicts\<close>: the first other teacher of the subject that is available in the
  period and leaves no teacher or class conflict; failing that, the first other room
  flagged available, free in the period, that leaves no room conflict. The second
  argument of the source, the original slot, is not read.
\<close>

definition alternativeTeacher :: "Catalog \<Rightarrow> Run \<Rightarrow> InsertTimetableEntry \<Rightarrow> Teacher option" where
  "alternativeTeacher cat st entry =
     find (\<lambda>teacher.
        t_id teacher \<noteq> teacherId entry
        \<and> (case find (\<lambda>tp. tp_id tp = timePeriodId entry) (timePeriods cat) of
             None \<Rightarrow> False
           | Some timePeriod \<Rightarrow> isTeacherAvailable teacher timePeriod)
        \<and> (let c = checkConflicts st (entry\<lparr>teacherId := t_id teacher\<rparr>)
           in \<not> teacherConflicts c \<and> \<not> classConflicts c))
       (getAvailableTeachers cat (subjectId entry))"

definition alternativeRoom :: "Catalog \<Rightarrow> Run \<Rightarrow> InsertTimetableEntry \<Rightarrow> Room option" where
  "alternativeRoom cat st entry =
     find (\<lambda>room.
        \<not> (Some (r_id room) = roomId entry \<or> \<not> truthyBool (r_isAvailable room))
        \<and> (case find (\<lambda>tp. tp_id tp = timePeriodId entry) (timePeriods cat) of
             None \<Rightarrow> False
           | Some timePeriod \<Rightarrow> isRoomAvailable st room timePeriod)
        \<and> \<not> roomConflicts (checkConflicts st (entry\<lparr>roomId := Some (r_id room)\<rparr>)))
       (rooms cat)"

definition resolveRoom :: "Catalog \<Rightarrow> Run \<Rightarrow> InsertTimetableEntry \<Rightarrow> InsertTimetableEntry option" where
  "resolveRoom cat st entry =
     (if truthyNum (roomId entry) then
        map_option (\<lambda>room. entry\<lparr>roomId := Some (r_id room)\<rparr>) (alternativeRoom cat st entry)
      else None)"

definition resolveConflicts ::
  "Catalog \<Rightarrow> Run \<Rightarrow> InsertTimetableEntry \<Rightarrow> InsertTimetableEntry option" where
  "resolveConflicts cat st entry =
     (if teacherId entry \<noteq> 0 then
        (case alternativeTeacher cat st entry of
           Some teacher \<Rightarrow> Some (entry\<lparr>teacherId := t_id teacher\<rparr>)
         | None \<Rightarrow> resolveRoom cat st entry)
      else resolveRoom cat st entry)"

subsection \<open>Constraints\<close>

text \<open>
  \<^verbatim>\<open>applyConstraint\<close>: each case of the \<^verbatim>\<open>switch\<close> returns true when the constraint
  names another target, and falls out of the \<^verbatim>\<open>switch\<close> otherwise, to the final
  \<^verbatim>\<open>return true\<close>.
\<close>

definition applyConstraint :: "Constraint \<Rightarrow> InsertTimetableEntry \<Rightarrow> bool" where
  "applyConstraint c entry =
     (case k_scope c of
        scope_teacher \<Rightarrow>
          (if truthyNum (k_targetId c) \<and> k_targetId c \<noteq> Some (teacherId entry) then True else True)
      | scope_class \<Rightarrow>
          (if truthyNum (k_targetId c) \<and> k_targetId c \<noteq> Some (classId entry) then True else True)
      | scope_subject \<Rightarrow>
          (if truthyNum (k_targetId c) \<and> k_targetId c \<noteq> Some (subjectId entry) then True else True)
      | scope_room \<Rightarrow>
          (if truthyNum (k_targetId c) \<and> k_targetId c \<noteq> roomId entry then True else True)
      | scope_global \<Rightarrow> True)"

text \<open>\<^verbatim>\<open>validateConstraints\<close>: the loop returns false at the first failing hard constraint.\<close>

fun constraintLoop :: "SchedulingOptions \<Rightarrow> InsertTimetableEntry \<Rightarrow> Constraint list \<Rightarrow> bool" where
  "constraintLoop opts entry [] = True"
| "constraintLoop opts entry (c # cs) =
     (if \<not> k_isActive c then constraintLoop opts entry cs
      else if k_type c = soft \<and> \<not> respectSoftConstraints opts then constraintLoop opts entry cs
      else
        (let isValid = applyConstraint c entry in
         if k_type c = hard \<and> \<not> isValid then False
         else constraintLoop opts entry cs))"

definition validateConstraints :: "Catalog \<Rightarrow> InsertTimetableEntry \<Rightarrow> SchedulingOptions \<Rightarrow> bool" where
  "validateConstraints cat entry opts =
     (if \<not> enforceHardConstraints opts \<and> \<not> respectSoftConstraints opts then True
      else constraintLoop opts entry (constraints cat))"

subsection \<open>The orchestrator\<close>

text \<open>The two messages \<^verbatim>\<open>generateSchedule\<close> pushes on \<^verbatim>\<open>conflicts\<close>.\<close>

definition shortfallMessage :: "int \<Rightarrow> Subject \<Rightarrow> Class \<Rightarrow> string" where
  "shortfallMessage periodsNeeded subject classObj =
     ''Cannot schedule all '' @ showInt periodsNeeded @ '' periods for '' @ s_name subject
       @ '' in '' @ c_name classObj"

definition unresolvableMessage :: "Subject \<Rightarrow> Class \<Rightarrow> Slot \<Rightarrow> string" where
  "unresolvableMessage subject classObj slot =
     ''Unresolvable conflict for '' @ s_name subject @ '' in '' @ c_name classObj
       @ '' at '' @ tp_name (slot_timePeriod slot)"

definition candidateEntry :: "ClassSubject \<Rightarrow> Slot \<Rightarrow> InsertTimetableEntry" where
  "candidateEntry classSubject slot =
     \<lparr>classId = cs_classId classSubject,
      subjectId = cs_subjectId classSubject,
      teacherId = orNum (cs_teacherId classSubject) (slot_teacherId slot),
      roomId = orOpt (cs_preferredRoomId classSubject) (slot_roomId slot),
      timePeriodId = slot_timePeriodId slot,
      weekNumber = 1,
      isGenerated = True\<rparr>"

text \<open>
  The body of the inner loop, up to the workload update: the candidate is pushed, or its
  replacement is, or a message is.
\<close>

definition commitSlot ::
  "Catalog \<Rightarrow> SchedulingOptions \<Rightarrow> Subject \<Rightarrow> Class \<Rightarrow> ClassSubject \<Rightarrow> Run \<Rightarrow> Slot \<Rightarrow> Run" where
  "commitSlot cat opts subject classObj classSubject st slot =
     (let entry = candidateEntry classSubject slot;
          conflictCheck = checkConflicts st entry;
          constraintsValid = validateConstraints cat entry opts
      in if teacherConflicts conflictCheck \<or> roomConflicts conflictCheck
            \<or> classConflicts conflictCheck \<or> \<not> constraintsValid
         then
           (case resolveConflicts cat st entry of
              Some resolved \<Rightarrow>
                if validateConstraints cat resolved opts
                then st\<lparr>generatedEntries := generatedEntries st @ [resolved],
                        conflictsResolved := conflictsResolved st + 1\<rparr>
                else st\<lparr>conflicts := conflicts st @ [unresolvableMessage subject classObj slot]\<rparr>
            | None \<Rightarrow>
                st\<lparr>conflicts := conflicts st @ [unresolvableMessage subject classObj slot]\<rparr>)
         else st\<lparr>generatedEntries := generatedEntries st @ [entry]\<rparr>)"

text \<open>The whole body of the inner loop: the workload update follows the branch.\<close>

definition assignSlot ::
  "Catalog \<Rightarrow> SchedulingOptions \<Rightarrow> Subject \<Rightarrow> Class \<Rightarrow> ClassSubject \<Rightarrow> Run \<Rightarrow> Slot \<Rightarrow> Run" where
  "assignSlot cat opts subject classObj classSubject st slot =
     (let entry = candidateEntry classSubject slot;
          st1 = commitSlot cat opts subject classObj classSubject st slot
      in if teacherId entry \<noteq> 0
         then updateTeacherWorkload st1 (teacherId entry) (tp_dayOfWeek (slot_timePeriod slot))
         else st1)"

text \<open>The inner loop, over the first \<^verbatim>\<open>Math.min(suitableSlots.length, periodsNeeded)\<close> slots.\<close>

definition assignSlots ::
  "Catalog \<Rightarrow> SchedulingOptions \<Rightarrow> Subject \<Rightarrow> Class \<Rightarrow> ClassSubject \<Rightarrow> Run \<Rightarrow> Slot list \<Rightarrow> Run" where
  "assignSlots cat opts subject classObj classSubject st slots =
     foldl (assignSlot cat opts subject classObj classSubject) st slots"

text \<open>The body of the outer loop, for one class-subject assignment.\<close>

definition processClassSubject :: "Catalog \<Rightarrow> SchedulingOptions \<Rightarrow> Run \<Rightarrow> ClassSubject \<Rightarrow> Run" where
  "processClassSubject cat opts st classSubject =
     (case find (\<lambda>s. s_id s = cs_subjectId classSubject) (subjects cat) of
        None \<Rightarrow> st
      | Some subject \<Rightarrow>
          (case find (\<lambda>c. c_id c = cs_classId classSubject) (classes cat) of
             None \<Rightarrow> st
           | Some classObj \<Rightarrow>
               (let periodsNeeded = s_weeklyHours subject;
                    suitableSlots = findSuitableTimeSlots cat st classSubject periodsNeeded opts;
                    st1 = (if int (length suitableSlots) < periodsNeeded
                           then st\<lparr>conflicts := conflicts st
                                     @ [shortfallMessage periodsNeeded subject classObj]\<rparr>
                           else st)
                in assignSlots cat opts subject classObj classSubject st1
                     (take (nat (min (int (length suitableSlots)) periodsNeeded)) suitableSlots))))"

text \<open>The state after \<^verbatim>\<open>initializeWorkloadTracking\<close> and the clearing of the entries.\<close>

definition initialRun :: "Catalog \<Rightarrow> Run" where
  "initialRun cat =
     \<lparr>teacherWorkloads = initializeWorkloadTracking (teachers cat),
      generatedEntries = [],
      conflicts = [],
      conflictsResolved = 0\<rparr>"

definition runLoop :: "Catalog \<Rightarrow> SchedulingOptions \<Rightarrow> Run" where
  "runLoop cat opts = foldl (processClassSubject cat opts) (initialRun cat) (classSubjects cat)"

text \<open>
  \<^verbatim>\<open>generateSchedule\<close>, on a catalog that has been loaded. (A failing load is caught by
  the source and reported with \<^verbatim>\<open>success: false\<close>; it is outside this model.)
\<close>

definition generateSchedule :: "Catalog \<Rightarrow> SchedulingOptions \<Rightarrow> SchedulingResult" where
  "generateSchedule cat opts =
     (if length (classSubjects cat) = 0 then
        \<lparr>success = False,
         timetableEntries = [],
         stats = \<lparr>st_totalClasses = 0, st_totalEntries = 0, st_conflictsResolved = 0\<rparr>,
         res_conflicts = [],
         errors =
           Some [''No class-subject assignments found. Please assign subjects to classes first.'']\<rparr>
      else
        (let st = runLoop cat opts in
         \<lparr>success = True,
          timetableEntries = generatedEntries st,
          stats = \<lparr>st_totalClasses = int (length (classes cat)),
                    st_totalEntries = int (length (generatedEntries st)),
                    st_conflictsResolved = conflictsResolved st\<rparr>,
          res_conflicts = conflicts st,
          errors = None\<rparr>))"

subsection \<open>Concrete catalogs\<close>

text \<open>
  The options the route \<^verbatim>\<open>/api/generate-schedule\<close> passes when the request names none.
\<close>

definition defaultOptions :: SchedulingOptions where
  "defaultOptions =
     \<lparr>optimizeTeacherWorkload = False, minimizeRoomChanges = False,
      prioritizeMorningClasses = False, enforceHardConstraints = True,
      respectSoftConstraints = True\<rparr>"


definition mondayP1 :: TimePeriod where
  "mondayP1 =
     \<lparr>tp_id = 1, tp_name = ''Monday-P1'', tp_startTime = ''08:00'', tp_endTime = ''09:00'',
      tp_dayOfWeek = monday, tp_isBreak = Some False, tp_orderIndex = 1\<rparr>"

definition mondayP2 :: TimePeriod where
  "mondayP2 =
     \<lparr>tp_id = 2, tp_name = ''Monday-P2'', tp_startTime = ''09:00'', tp_endTime = ''10:00'',
      tp_dayOfWeek = monday, tp_isBreak = Some False, tp_orderIndex = 2\<rparr>"



text \<open>A teacher with no caps set and no availability data.\<close>

definition plainTeacher :: "int \<Rightarrow> string \<Rightarrow> Teacher" where
  "plainTeacher i n =
     \<lparr>t_id = i, t_name = n, t_maxClassesPerDay = None, t_maxClassesPerWeek = None,
      t_availability = None\<rparr>"

definition openRoom :: "int \<Rightarrow> Room" where
  "openRoom i = \<lparr>r_id = i, r_isAvailable = Some True\<rparr>"

definition assignment :: "int \<Rightarrow> int \<Rightarrow> ClassSubject" where
  "assignment c s =
     \<lparr>cs_classId = c, cs_subjectId = s, cs_teacherId = None, cs_preferredRoomId = None\<rparr>"

definition entryOf :: "int \<Rightarrow> int \<Rightarrow> int \<Rightarrow> int option \<Rightarrow> int \<Rightarrow> InsertTimetableEntry" where
  "entryOf c s t r p =
     \<lparr>classId = c, subjectId = s, teacherId = t, roomId = r, timePeriodId = p,
      weekNumber = 1, isGenerated = True\<rparr>"

text \<open>
  Classes 7A and 7B both take Math, one period a week; teacher 1 is the only Math teacher;
  there is one period, and three rooms.
\<close>

definition sharedTeacherCatalog :: Catalog where
  "sharedTeacherCatalog =
     \<lparr>classes = [\<lparr>c_id = 1, c_name = ''7A''\<rparr>, \<lparr>c_id = 2, c_name = ''7B''\<rparr>],
      subjects = [\<lparr>s_id = 1, s_name = ''Math'', s_weeklyHours = 1\<rparr>],
      teachers = [plainTeacher 1 ''Ada''],
      rooms = [openRoom 1, openRoom 2, openRoom 3],
      timePeriods = [mondayP1],
      classSubjects = [assignment 1 1, assignment 2 1],
      constraints = [],
      teacherSubjects = [\<lparr>ts_teacherId = 1, ts_subjectId = 1\<rparr>]\<rparr>"

text \<open>The same, with a second Math teacher and one room that both assignments prefer.\<close>

definition sharedRoomCatalog :: Catalog where
  "sharedRoomCatalog =
     sharedTeacherCatalog
       \<lparr>teachers := [plainTeacher 1 ''Ada'', plainTeacher 2 ''Bob''],
        rooms := [openRoom 1],
        classSubjects := [(assignment 1 1)\<lparr>cs_preferredRoomId := Some 1\<rparr>,
                          (assignment 2 1)\<lparr>cs_preferredRoomId := Some 1\<rparr>],
        teacherSubjects := [\<lparr>ts_teacherId = 1, ts_subjectId = 1\<rparr>,
                            \<lparr>ts_teacherId = 2, ts_subjectId = 1\<rparr>]\<rparr>"

text \<open>Class 7A takes Math with teacher 1 and Art with teacher 2; one period, three rooms.\<close>

definition sharedClassCatalog :: Catalog where
  "sharedClassCatalog =
     sharedTeacherCatalog
       \<lparr>subjects := [\<lparr>s_id = 1, s_name = ''Math'', s_weeklyHours = 1\<rparr>,
                     \<lparr>s_id = 2, s_name = ''Art'', s_weeklyHours = 1\<rparr>],
        teachers := [plainTeacher 1 ''Ada'', plainTeacher 2 ''Bob''],
        classSubjects := [assignment 1 1, assignment 1 2],
        teacherSubjects := [\<lparr>ts_teacherId = 1, ts_subjectId = 1\<rparr>,
                            \<lparr>ts_teacherId = 2, ts_subjectId = 2\<rparr>]\<rparr>"

text \<open>
  Class 7A takes Math twice a week; teacher 1, the only Math teacher, may teach one class
  a day; both periods are on Monday.
\<close>

definition cappedTeacherCatalog :: Catalog where
  "cappedTeacherCatalog =
     \<lparr>classes = [\<lparr>c_id = 1, c_name = ''7A''\<rparr>],
      subjects = [\<lparr>s_id = 1, s_name = ''Math'', s_weeklyHours = 2\<rparr>],
      teachers = [(plainTeacher 1 ''Ada'')\<lparr>t_maxClassesPerDay := Some 1\<rparr>],
      rooms = [openRoom 1],
      timePeriods = [mondayP1, mondayP2],
      classSubjects = [assignment 1 1],
      constraints = [],
      teacherSubjects = [\<lparr>ts_teacherId = 1, ts_subjectId = 1\<rparr>]\<rparr>"

text \<open>The first catalog with no room at all: the second candidate cannot be repaired.\<close>

definition noRoomCatalog :: Catalog where
  "noRoomCatalog = sharedTeacherCatalog\<lparr>rooms := []\<rparr>"

text \<open>The first catalog with a second Math teacher: the second candidate changes teacher.\<close>

definition twoTeacherCatalog :: Catalog where
  "twoTeacherCatalog =
     sharedTeacherCatalog
       \<lparr>teachers := [plainTeacher 1 ''Ada'', plainTeacher 2 ''Bob''],
        teacherSubjects := [\<lparr>ts_teacherId = 1, ts_subjectId = 1\<rparr>,
                            \<lparr>ts_teacherId = 2, ts_subjectId = 1\<rparr>]\<rparr>"

text \<open>An active hard constraint on teacher 1, who is the only teacher of the only subject.\<close>

definition blockTeacher1 :: Constraint where
  "blockTeacher1 =
     \<lparr>k_type = hard, k_scope = scope_teacher, k_targetId = Some 1, k_isActive = True\<rparr>"

definition constrainedCatalog :: Catalog where
  "constrainedCatalog =
     sharedTeacherCatalog\<lparr>classSubjects := [assignment 1 1], constraints := [blockTeacher1]\<rparr>"

text \<open>Math three times a week with two periods in the week.\<close>

definition shortfallCatalog :: Catalog where
  "shortfallCatalog =
     cappedTeacherCatalog\<lparr>subjects := [\<lparr>s_id = 1, s_name = ''Math'', s_weeklyHours = 3\<rparr>]\<rparr>"

text \<open>A teacher who has availability data for Monday only: one window, 08:00 to 10:30.\<close>

definition mondayTeacher :: Teacher where
  "mondayTeacher =
     (plainTeacher 1 ''Ada'')
       \<lparr>t_availability :=
          Some [monday \<mapsto> [\<lparr>a_start = ''08:00'', a_end = ''10:30'', a_available = True\<rparr>]]\<rparr>"

definition tuesdayP1 :: TimePeriod where
  "tuesdayP1 = mondayP1\<lparr>tp_id := 3, tp_name := ''Tuesday-P1'', tp_dayOfWeek := tuesday\<rparr>"

text \<open>A run in which teacher 1 already has six classes on every day.\<close>

definition busyRun :: Run where
  "busyRun =
     \<lparr>teacherWorkloads =
        [1 \<mapsto> \<lparr>w_teacherId = 1, classesPerDay = (\<lambda>d. 6), totalClasses = 6\<rparr>],
      generatedEntries = [], conflicts = [], conflictsResolved = 0\<rparr>"


text \<open>
  Class 7A is given Math, one period a week, by two rows of \<^verbatim>\<open>class_subjects\<close> (the
  table has no key on the pair); teacher 1 may teach one class a day; there is a period
  on Monday and one on Tuesday.
\<close>

definition duplicateCatalog :: Catalog where
  "duplicateCatalog =
     cappedTeacherCatalog
       \<lparr>subjects := [\<lparr>s_id = 1, s_name = ''Math'', s_weeklyHours = 1\<rparr>],
        timePeriods := [mondayP1, tuesdayP1],
        classSubjects := [assignment 1 1, assignment 1 1]\<rparr>"

text \<open>Math with a negative number of weekly hours, which the insert schema lets through.\<close>

definition negativeHoursCatalog :: Catalog where
  "negativeHoursCatalog =
     cappedTeacherCatalog\<lparr>subjects := [\<lparr>s_id = 1, s_name = ''Math'', s_weeklyHours = - 2\<rparr>]\<rparr>"

text \<open>A teacher whose daily cap is set to 0, and a catalog with that teacher for Math.\<close>

definition zeroCapTeacher :: Teacher where
  "zeroCapTeacher = (plainTeacher 1 ''Ada'')\<lparr>t_maxClassesPerDay := Some 0\<rparr>"

definition zeroCapCatalog :: Catalog where
  "zeroCapCatalog = cappedTeacherCatalog\<lparr>teachers := [zeroCapTeacher]\<rparr>"

section \<open>Properties\<close>

subsection \<open>Helper facts\<close>

lemma constraintLoop_holds: "constraintLoop opts entry cs"
  by (induction cs) (simp_all add: applyConstraint_def Let_def split: constraintScope.splits)

lemma validateConstraints_holds: "validateConstraints cat entry opts"
  by (simp add: validateConstraints_def constraintLoop_holds)

subsection \<open>Double booking\<close>

text \<open>
  Claim C1 (no two entries of a run share a teacher and a period, a room and a period, or
  a class and a period) fails after a repair by \<^verbatim>\<open>resolveConflicts\<close>, which re-checks
  only the resource it has just replaced. In \<open>sharedTeacherCatalog\<close> the second entry
  gets another room and keeps teacher 1 in period 1; in \<open>sharedRoomCatalog\<close> it gets
  another teacher and keeps room 1 in period 1; in \<open>sharedClassCatalog\<close> it gets another
  room and keeps class 1 in period 1.
\<close>

theorem double_booking_after_repair:
  "timetableEntries (generateSchedule sharedTeacherCatalog defaultOptions) =
     [entryOf 1 1 1 (Some 1) 1, entryOf 2 1 1 (Some 3) 1]
   \<and> timetableEntries (generateSchedule sharedRoomCatalog defaultOptions) =
     [entryOf 1 1 1 (Some 1) 1, entryOf 2 1 2 (Some 1) 1]
   \<and> timetableEntries (generateSchedule sharedClassCatalog defaultOptions) =
     [entryOf 1 1 1 (Some 1) 1, entryOf 1 2 2 (Some 3) 1]"
  by code_simp

subsection \<open>Workload caps\<close>

text \<open>
  Claim C2 (a teacher's entries on one day never exceed the teacher's
  \<^verbatim>\<open>maxClassesPerDay\<close>) fails in \<open>cappedTeacherCatalog\<close>: the slot finder checks both
  Monday periods against the counters as they stand before the first commit, so teacher 1,
  capped at one class a day, gets two entries on Monday.
\<close>

theorem daily_cap_exceeded:
  "timetableEntries (generateSchedule cappedTeacherCatalog defaultOptions) =
     [entryOf 1 1 1 (Some 1) 1, entryOf 1 1 1 (Some 1) 2]
   \<and> map (\<lambda>t. (t_id t, t_maxClassesPerDay t)) (teachers cappedTeacherCatalog) = [(1, Some 1)]
   \<and> map (\<lambda>tp. (tp_id tp, tp_dayOfWeek tp)) (timePeriods cappedTeacherCatalog) =
       [(1, monday), (2, monday)]"
  by code_simp

subsection \<open>Constraints\<close>

text \<open>
  Claim C3 says that an active hard constraint scoped to teacher 1 makes every entry naming
  teacher 1 invalid when hard constraints are enforced. At the entry below the validator
  answers true, and the run over \<open>constrainedCatalog\<close> commits the entry of teacher 1 as it
  is: no replacement is counted and no conflict is reported.
\<close>

theorem hard_teacher_constraint_counterexample:
  "enforceHardConstraints defaultOptions
   \<and> constraints constrainedCatalog = [blockTeacher1]
   \<and> teacherId (entryOf 1 1 1 (Some 1) 1) = 1
   \<and> validateConstraints constrainedCatalog (entryOf 1 1 1 (Some 1) 1) defaultOptions
   \<and> timetableEntries (generateSchedule constrainedCatalog defaultOptions) =
       [entryOf 1 1 1 (Some 1) 1]
   \<and> res_conflicts (generateSchedule constrainedCatalog defaultOptions) = []
   \<and> st_conflictsResolved (stats (generateSchedule constrainedCatalog defaultOptions)) = 0"
  by code_simp

subsection \<open>The workload counters\<close>

text \<open>
  Claim C4 (the counters change only on a commit, and then for the teacher of the committed
  entry) fails in both respects. In \<open>noRoomCatalog\<close> the second assignment ends as an
  unresolved conflict, no entry is added, and both counters of teacher 1 go from 1 to 2.
  In \<open>twoTeacherCatalog\<close> the second entry is committed for teacher 2, and the counters that
  go up are those of teacher 1.
\<close>

theorem workload_counted_without_commit:
  "(let st1 = processClassSubject noRoomCatalog defaultOptions (initialRun noRoomCatalog)
                (assignment 1 1);
        st2 = processClassSubject noRoomCatalog defaultOptions st1 (assignment 2 1)
    in runLoop noRoomCatalog defaultOptions = st2
       \<and> generatedEntries st1 = [entryOf 1 1 1 None 1]
       \<and> generatedEntries st2 = [entryOf 1 1 1 None 1]
       \<and> conflicts st2 = [''Unresolvable conflict for Math in 7B at Monday-P1'']
       \<and> map_option (\<lambda>w. (classesPerDay w monday, totalClasses w)) (teacherWorkloads st1 1)
           = Some (1, 1)
       \<and> map_option (\<lambda>w. (classesPerDay w monday, totalClasses w)) (teacherWorkloads st2 1)
           = Some (2, 2))
   \<and> generatedEntries (runLoop twoTeacherCatalog defaultOptions) =
       [entryOf 1 1 1 (Some 1) 1, entryOf 2 1 2 (Some 2) 1]
   \<and> map (\<lambda>i. map_option (\<lambda>w. (classesPerDay w monday, totalClasses w))
                (teacherWorkloads (runLoop twoTeacherCatalog defaultOptions) i)) [1, 2]
       = [Some (2, 2), Some (0, 0)]"
proof -
  define st1 where
    "st1 = processClassSubject noRoomCatalog defaultOptions (initialRun noRoomCatalog)
             (assignment 1 1)"
  define st2 where "st2 = processClassSubject noRoomCatalog defaultOptions st1 (assignment 2 1)"
  have run: "runLoop noRoomCatalog defaultOptions = st2"
    by (simp add: st2_def st1_def runLoop_def noRoomCatalog_def sharedTeacherCatalog_def)
  have e1: "generatedEntries st1 = [entryOf 1 1 1 None 1]"
    unfolding st1_def by code_simp
  have e2: "generatedEntries st2 = [entryOf 1 1 1 None 1]"
    unfolding st2_def st1_def by code_simp
  have c2: "conflicts st2 = [''Unresolvable conflict for Math in 7B at Monday-P1'']"
    unfolding st2_def st1_def by code_simp
  have w1: "map_option (\<lambda>w. (classesPerDay w monday, totalClasses w)) (teacherWorkloads st1 1)
              = Some (1, 1)"
    unfolding st1_def by code_simp
  have w2: "map_option (\<lambda>w. (classesPerDay w monday, totalClasses w)) (teacherWorkloads st2 1)
              = Some (2, 2)"
    unfolding st2_def st1_def by code_simp
  have e3: "generatedEntries (runLoop twoTeacherCatalog defaultOptions) =
              [entryOf 1 1 1 (Some 1) 1, entryOf 2 1 2 (Some 2) 1]"
    by code_simp
  have w3: "map (\<lambda>i. map_option (\<lambda>w. (classesPerDay w monday, totalClasses w))
                (teacherWorkloads (runLoop twoTeacherCatalog defaultOptions) i)) [1, 2]
              = [Some (2, 2), Some (0, 0)]"
    by code_simp
  show ?thesis
    using run e1 e2 c2 w1 w2 e3 w3 unfolding Let_def st1_def st2_def by blast
qed

subsection \<open>Availability\<close>

lemma hourOf_before_colon:
  assumes "CHR '':'' \<notin> set h"
  shows "hourOf (h @ CHR '':'' # m) = parseInt h"
proof -
  have "takeWhile (\<lambda>c. c \<noteq> CHR '':'') (h @ CHR '':'' # m) = h"
    using assms by (induction h) auto
  then show ?thesis by (simp add: hourOf_def)
qed

lemma numGe_iff: "numGe a b = (\<exists>x y. a = Some x \<and> b = Some y \<and> y \<le> x)"
  by (auto simp: numGe_def split: option.splits)

lemma numLe_iff: "numLe a b = (\<exists>x y. a = Some x \<and> b = Some y \<and> x \<le> y)"
  by (auto simp: numLe_def split: option.splits)

text \<open>
  Claim C7: a teacher with no availability data is available in every period; a teacher
  with a list of windows for the period's day is available exactly when some window of
  that list starts at or before the period's start hour and ends at or after its end hour.
  The hours are the numbers read before the colon, so the minutes play no part.
\<close>

theorem isTeacherAvailable_windows:
  "(t_availability teacher = None \<longrightarrow> isTeacherAvailable teacher timePeriod)
   \<and> (\<forall>availability windows.
        t_availability teacher = Some availability
        \<and> availability (tp_dayOfWeek timePeriod) = Some windows \<longrightarrow>
        isTeacherAvailable teacher timePeriod =
          (\<exists>w \<in> set windows. \<exists>ws we ps pe.
             hourOf (a_start w) = Some ws \<and> hourOf (a_end w) = Some we
             \<and> hourOf (tp_startTime timePeriod) = Some ps
             \<and> hourOf (tp_endTime timePeriod) = Some pe
             \<and> ws \<le> ps \<and> pe \<le> we))
   \<and> (\<forall>h m. CHR '':'' \<notin> set h \<longrightarrow> hourOf (h @ CHR '':'' # m) = parseInt h)"
proof (intro conjI allI impI)
  assume "t_availability teacher = None"
  then show "isTeacherAvailable teacher timePeriod"
    by (simp add: isTeacherAvailable_def)
next
  fix availability windows
  assume "t_availability teacher = Some availability
          \<and> availability (tp_dayOfWeek timePeriod) = Some windows"
  then have "isTeacherAvailable teacher timePeriod =
      (\<exists>w \<in> set windows.
         numGe (hourOf (tp_startTime timePeriod)) (hourOf (a_start w))
         \<and> numLe (hourOf (tp_endTime timePeriod)) (hourOf (a_end w)))"
    by (simp add: isTeacherAvailable_def Let_def list_ex_iff)
  also have "\<dots> = (\<exists>w \<in> set windows. \<exists>ws we ps pe.
             hourOf (a_start w) = Some ws \<and> hourOf (a_end w) = Some we
             \<and> hourOf (tp_startTime timePeriod) = Some ps
             \<and> hourOf (tp_endTime timePeriod) = Some pe
             \<and> ws \<le> ps \<and> pe \<le> we)"
    unfolding numGe_iff numLe_iff by blast
  finally show "isTeacherAvailable teacher timePeriod =
          (\<exists>w \<in> set windows. \<exists>ws we ps pe.
             hourOf (a_start w) = Some ws \<and> hourOf (a_end w) = Some we
             \<and> hourOf (tp_startTime timePeriod) = Some ps
             \<and> hourOf (tp_endTime timePeriod) = Some pe
             \<and> ws \<le> ps \<and> pe \<le> we)" .
next
  fix h m
  assume "CHR '':'' \<notin> set h"
  then show "hourOf (h @ CHR '':'' # m) = parseInt h"
    by (rule hourOf_before_colon)
qed

theorem isTeacherAvailable_windows_witness:
  "t_availability (plainTeacher 2 ''Bob'') = None
   \<and> isTeacherAvailable (plainTeacher 2 ''Bob'') mondayP2
   \<and> (\<exists>availability.
        t_availability mondayTeacher = Some availability
        \<and> availability (tp_dayOfWeek mondayP2) =
            Some [\<lparr>a_start = ''08:00'', a_end = ''10:30'', a_available = True\<rparr>])
   \<and> isTeacherAvailable mondayTeacher mondayP2
   \<and> hourOf (''10'' @ CHR '':'' # ''30'') = parseInt ''10''"
proof -
  have none: "t_availability (plainTeacher 2 ''Bob'') = None"
    by (simp add: plainTeacher_def)
  have day: "t_availability mondayTeacher =
               Some [monday \<mapsto> [\<lparr>a_start = ''08:00'', a_end = ''10:30'', a_available = True\<rparr>]]
             \<and> [monday \<mapsto> [\<lparr>a_start = ''08:00'', a_end = ''10:30'', a_available = True\<rparr>]]
                 (tp_dayOfWeek mondayP2) =
                 Some [\<lparr>a_start = ''08:00'', a_end = ''10:30'', a_available = True\<rparr>]"
    by (simp add: mondayTeacher_def plainTeacher_def mondayP2_def)
  have hours: "hourOf ''08:00'' = Some 8" "hourOf ''10:30'' = Some 10"
    "hourOf ''09:00'' = Some 9" "hourOf ''10:00'' = Some 10"
    by code_simp+
  have a1: "isTeacherAvailable (plainTeacher 2 ''Bob'') mondayP2"
    using isTeacherAvailable_windows [of "plainTeacher 2 ''Bob''" mondayP2] none by blast
  have "isTeacherAvailable mondayTeacher mondayP2 =
          (\<exists>w \<in> set [\<lparr>a_start = ''08:00'', a_end = ''10:30'', a_available = True\<rparr>].
             \<exists>ws we ps pe.
             hourOf (a_start w) = Some ws \<and> hourOf (a_end w) = Some we
             \<and> hourOf (tp_startTime mondayP2) = Some ps
             \<and> hourOf (tp_endTime mondayP2) = Some pe
             \<and> ws \<le> ps \<and> pe \<le> we)"
    using isTeacherAvailable_windows [of mondayTeacher mondayP2] day by blast
  then have a2: "isTeacherAvailable mondayTeacher mondayP2"
    by (simp add: mondayP2_def hours)
  have a3: "hourOf (''10'' @ CHR '':'' # ''30'') = parseInt ''10''"
  proof -
    have c: "CHR '':'' \<notin> set ''10''" by simp
    have "\<forall>h m. CHR '':'' \<notin> set h \<longrightarrow> hourOf (h @ CHR '':'' # m) = parseInt h"
      using isTeacherAvailable_windows [of mondayTeacher mondayP2] by blast
    then show ?thesis using c by blast
  qed
  show ?thesis using none day a1 a2 a3 by blast
qed

text \<open>
  Claim C9: a teacher who has availability data with no entry for the period's day is
  unavailable in that period.
\<close>

theorem isTeacherAvailable_missing_day:
  "t_availability teacher = Some availability \<Longrightarrow>
   availability (tp_dayOfWeek timePeriod) = None \<Longrightarrow>
   \<not> isTeacherAvailable teacher timePeriod"
  by (simp add: isTeacherAvailable_def)

theorem isTeacherAvailable_missing_day_witness:
  "t_availability mondayTeacher =
     Some [monday \<mapsto> [\<lparr>a_start = ''08:00'', a_end = ''10:30'', a_available = True\<rparr>]]
   \<and> [monday \<mapsto> [\<lparr>a_start = ''08:00'', a_end = ''10:30'', a_available = True\<rparr>]]
        (tp_dayOfWeek tuesdayP1) = None
   \<and> \<not> isTeacherAvailable mondayTeacher tuesdayP1"
proof -
  have a: "t_availability mondayTeacher =
     Some [monday \<mapsto> [\<lparr>a_start = ''08:00'', a_end = ''10:30'', a_available = True\<rparr>]]"
    by (simp add: mondayTeacher_def plainTeacher_def)
  have d: "[monday \<mapsto> [\<lparr>a_start = ''08:00'', a_end = ''10:30'', a_available = True\<rparr>]]
        (tp_dayOfWeek tuesdayP1) = None"
    by (simp add: tuesdayP1_def mondayP1_def)
  show ?thesis using a d isTeacherAvailable_missing_day [OF a d] by blast
qed

subsection \<open>The workload check\<close>

text \<open>
  Claim C10 gives the default caps to an unset \<^verbatim>\<open>maxClassesPerDay\<close> and
  \<^verbatim>\<open>maxClassesPerWeek\<close> only, and has the check succeed exactly when the counts are
  below the caps. With the daily cap set to 0 and no class counted yet, the count 0 is not
  below the cap 0, and the check succeeds all the same: \<^verbatim>\<open>||\<close> reads the cap 0 as unset.
\<close>

theorem zero_cap_counterexample:
  "t_maxClassesPerDay zeroCapTeacher = Some 0
   \<and> teacherWorkloads (initialRun zeroCapCatalog) (t_id zeroCapTeacher) = Some (zeroWorkload 1)
   \<and> classesPerDay (zeroWorkload 1) (tp_dayOfWeek mondayP1) = 0
   \<and> checkTeacherWorkloadConstraints (initialRun zeroCapCatalog) zeroCapTeacher mondayP1
       defaultOptions
   \<and> \<not> (classesPerDay (zeroWorkload 1) (tp_dayOfWeek mondayP1)
          < (case t_maxClassesPerDay zeroCapTeacher of None \<Rightarrow> 6 | Some n \<Rightarrow> n))"
  by (simp add: zeroCapTeacher_def zeroCapCatalog_def plainTeacher_def initialRun_def
        initializeWorkloadTracking_def zeroWorkload_def checkTeacherWorkloadConstraints_def
        orNum_def)

text \<open>
  Claim C10, as the code has it: the workload check succeeds exactly when the tracker has a
  record for the teacher, the day's count is below the daily cap and the week's total is
  below the weekly cap, where a \<^verbatim>\<open>maxClassesPerDay\<close> that is unset or 0 stands for 6 and a
  \<^verbatim>\<open>maxClassesPerWeek\<close> that is unset or 0 stands for 30.
\<close>

theorem checkTeacherWorkloadConstraints_caps:
  "checkTeacherWorkloadConstraints st teacher timePeriod opts =
     (\<exists>workload.
        teacherWorkloads st (t_id teacher) = Some workload
        \<and> classesPerDay workload (tp_dayOfWeek timePeriod)
            < (case t_maxClassesPerDay teacher of None \<Rightarrow> 6 | Some n \<Rightarrow> if n = 0 then 6 else n)
        \<and> totalClasses workload
            < (case t_maxClassesPerWeek teacher of None \<Rightarrow> 30 | Some n \<Rightarrow> if n = 0 then 30 else n))"
  by (auto simp: checkTeacherWorkloadConstraints_def orNum_def Let_def split: option.splits)

theorem checkTeacherWorkloadConstraints_caps_witness:
  "teacherWorkloads busyRun (t_id (plainTeacher 1 ''Ada'')) =
     Some \<lparr>w_teacherId = 1, classesPerDay = (\<lambda>d. 6), totalClasses = 6\<rparr>
   \<and> t_maxClassesPerDay (plainTeacher 1 ''Ada'') = None
   \<and> t_maxClassesPerWeek (plainTeacher 1 ''Ada'') = None
   \<and> checkTeacherWorkloadConstraints busyRun (plainTeacher 1 ''Ada'') mondayP1 defaultOptions =
       ((6::int) < 6 \<and> (6::int) < 30)
   \<and> checkTeacherWorkloadConstraints (initialRun zeroCapCatalog) zeroCapTeacher mondayP1
       defaultOptions =
       ((0::int) < 6 \<and> (0::int) < 30)"
proof -
  have w: "teacherWorkloads busyRun (t_id (plainTeacher 1 ''Ada'')) =
     Some \<lparr>w_teacherId = 1, classesPerDay = (\<lambda>d. 6), totalClasses = 6\<rparr>"
    by (simp add: busyRun_def plainTeacher_def)
  have z: "teacherWorkloads (initialRun zeroCapCatalog) (t_id zeroCapTeacher)
             = Some (zeroWorkload 1)"
    by (simp add: zeroCapTeacher_def zeroCapCatalog_def plainTeacher_def initialRun_def
          initializeWorkloadTracking_def)
  have busy: "checkTeacherWorkloadConstraints busyRun (plainTeacher 1 ''Ada'') mondayP1
                defaultOptions = ((6::int) < 6 \<and> (6::int) < 30)"
    using w checkTeacherWorkloadConstraints_caps
      [of busyRun "plainTeacher 1 ''Ada''" mondayP1 defaultOptions]
    by (simp add: plainTeacher_def)
  have zero: "checkTeacherWorkloadConstraints (initialRun zeroCapCatalog) zeroCapTeacher mondayP1
                defaultOptions = ((0::int) < 6 \<and> (0::int) < 30)"
    using z checkTeacherWorkloadConstraints_caps
      [of "initialRun zeroCapCatalog" zeroCapTeacher mondayP1 defaultOptions]
    by (simp add: zeroCapTeacher_def plainTeacher_def zeroWorkload_def)
  show ?thesis using w busy zero by (simp add: plainTeacher_def)
qed

subsection \<open>No assignments\<close>

text \<open>
  Claim C8: with no class-subject assignment in the catalog, the result is a failure with
  the explicit message, no entry, no conflict and all statistics zero; nothing else of the
  catalog and nothing of the options is looked at.
\<close>

theorem generateSchedule_no_assignments:
  "classSubjects cat = [] \<Longrightarrow>
   generateSchedule cat opts =
     \<lparr>success = False,
      timetableEntries = [],
      stats = \<lparr>st_totalClasses = 0, st_totalEntries = 0, st_conflictsResolved = 0\<rparr>,
      res_conflicts = [],
      errors =
        Some [''No class-subject assignments found. Please assign subjects to classes first.'']\<rparr>"
  by (simp add: generateSchedule_def)

theorem generateSchedule_no_assignments_witness:
  "classSubjects (sharedTeacherCatalog\<lparr>classSubjects := []\<rparr>) = []
   \<and> generateSchedule (sharedTeacherCatalog\<lparr>classSubjects := []\<rparr>) defaultOptions =
     \<lparr>success = False,
      timetableEntries = [],
      stats = \<lparr>st_totalClasses = 0, st_totalEntries = 0, st_conflictsResolved = 0\<rparr>,
      res_conflicts = [],
      errors =
        Some [''No class-subject assignments found. Please assign subjects to classes first.'']\<rparr>"
proof -
  have e: "classSubjects (sharedTeacherCatalog\<lparr>classSubjects := []\<rparr>) = []" by simp
  show ?thesis
    using e generateSchedule_no_assignments [OF e, of defaultOptions] by blast
qed

subsection \<open>The order of the periods\<close>














subsection \<open>Entries and messages of one assignment\<close>

lemma updateTeacherWorkload_keeps:
  "generatedEntries (updateTeacherWorkload st tid d) = generatedEntries st"
  "conflicts (updateTeacherWorkload st tid d) = conflicts st"
  "conflictsResolved (updateTeacherWorkload st tid d) = conflictsResolved st"
  by (simp_all add: updateTeacherWorkload_def split: option.splits)

lemma resolveConflicts_keeps:
  assumes "resolveConflicts cat st entry = Some resolved"
  shows "classId resolved = classId entry \<and> subjectId resolved = subjectId entry
         \<and> timePeriodId resolved = timePeriodId entry"
  using assms
  by (auto simp: resolveConflicts_def resolveRoom_def split: if_splits option.splits)

text \<open>
  One pass through the loop body appends at most one entry, of the class and subject of
  the assignment, and at most one message, the one of the slot.
\<close>

lemma commitSlot_appends:
  "\<exists>new rest.
     generatedEntries (commitSlot cat opts subject classObj classSubject st slot)
       = generatedEntries st @ new
     \<and> conflicts (commitSlot cat opts subject classObj classSubject st slot)
       = conflicts st @ rest
     \<and> length new \<le> 1
     \<and> (\<forall>e \<in> set new. classId e = cs_classId classSubject
                       \<and> subjectId e = cs_subjectId classSubject)
     \<and> (\<forall>m \<in> set rest. m = unresolvableMessage subject classObj slot)"
proof -
  let ?entry = "candidateEntry classSubject slot"
  have ids: "classId ?entry = cs_classId classSubject \<and> subjectId ?entry = cs_subjectId classSubject"
    by (simp add: candidateEntry_def)
  show ?thesis
  proof (cases "resolveConflicts cat st ?entry")
    case None
    then show ?thesis using ids by (simp add: commitSlot_def Let_def)
  next
    case (Some resolved)
    then have "classId resolved = cs_classId classSubject
               \<and> subjectId resolved = cs_subjectId classSubject"
      using resolveConflicts_keeps [OF Some] ids by simp
    then show ?thesis using Some ids by (simp add: commitSlot_def Let_def)
  qed
qed

lemma assignSlot_appends:
  "\<exists>new rest.
     generatedEntries (assignSlot cat opts subject classObj classSubject st slot)
       = generatedEntries st @ new
     \<and> conflicts (assignSlot cat opts subject classObj classSubject st slot)
       = conflicts st @ rest
     \<and> length new \<le> 1
     \<and> (\<forall>e \<in> set new. classId e = cs_classId classSubject
                       \<and> subjectId e = cs_subjectId classSubject)
     \<and> (\<forall>m \<in> set rest. m = unresolvableMessage subject classObj slot)"
  using commitSlot_appends [of cat opts subject classObj classSubject st slot]
  by (simp add: assignSlot_def Let_def updateTeacherWorkload_keeps)

lemma assignSlots_appends:
  "\<exists>new rest.
     generatedEntries (assignSlots cat opts subject classObj classSubject st slots)
       = generatedEntries st @ new
     \<and> conflicts (assignSlots cat opts subject classObj classSubject st slots)
       = conflicts st @ rest
     \<and> length new \<le> length slots
     \<and> (\<forall>e \<in> set new. classId e = cs_classId classSubject
                       \<and> subjectId e = cs_subjectId classSubject)
     \<and> (\<forall>m \<in> set rest. \<exists>slot \<in> set slots. m = unresolvableMessage subject classObj slot)"
proof (induction slots arbitrary: st)
  case Nil
  then show ?case by (simp add: assignSlots_def)
next
  case (Cons slot slots)
  let ?st1 = "assignSlot cat opts subject classObj classSubject st slot"
  obtain new1 rest1 where one:
    "generatedEntries ?st1 = generatedEntries st @ new1"
    "conflicts ?st1 = conflicts st @ rest1"
    "length new1 \<le> 1"
    "\<forall>e \<in> set new1. classId e = cs_classId classSubject \<and> subjectId e = cs_subjectId classSubject"
    "\<forall>m \<in> set rest1. m = unresolvableMessage subject classObj slot"
    using assignSlot_appends [of cat opts subject classObj classSubject st slot] by blast
  obtain new2 rest2 where more:
    "generatedEntries (assignSlots cat opts subject classObj classSubject ?st1 slots)
       = generatedEntries ?st1 @ new2"
    "conflicts (assignSlots cat opts subject classObj classSubject ?st1 slots)
       = conflicts ?st1 @ rest2"
    "length new2 \<le> length slots"
    "\<forall>e \<in> set new2. classId e = cs_classId classSubject \<and> subjectId e = cs_subjectId classSubject"
    "\<forall>m \<in> set rest2. \<exists>slot \<in> set slots. m = unresolvableMessage subject classObj slot"
    using Cons.IH [of ?st1] by blast
  have step: "assignSlots cat opts subject classObj classSubject st (slot # slots)
              = assignSlots cat opts subject classObj classSubject ?st1 slots"
    by (simp add: assignSlots_def)
  have "generatedEntries (assignSlots cat opts subject classObj classSubject st (slot # slots))
          = generatedEntries st @ (new1 @ new2)"
    using step one(1) more(1) by simp
  moreover have "conflicts (assignSlots cat opts subject classObj classSubject st (slot # slots))
          = conflicts st @ (rest1 @ rest2)"
    using step one(2) more(2) by simp
  moreover have "length (new1 @ new2) \<le> length (slot # slots)"
    using one(3) more(3) by simp
  moreover have "\<forall>e \<in> set (new1 @ new2).
      classId e = cs_classId classSubject \<and> subjectId e = cs_subjectId classSubject"
    using one(4) more(4) by auto
  moreover have "\<forall>m \<in> set (rest1 @ rest2).
      \<exists>s \<in> set (slot # slots). m = unresolvableMessage subject classObj s"
    using one(5) more(5) by auto
  ultimately show ?case by blast
qed

text \<open>
  One pass of the outer loop, whatever the row: the entries appended are of the row's class
  and subject, and there are at most \<^verbatim>\<open>weeklyHours\<close> of them (none when that number is
  negative, or when the subject or the class of the row is not in the catalog).
\<close>

lemma processClassSubject_appends:
  "\<exists>new.
     generatedEntries (processClassSubject cat opts st row) = generatedEntries st @ new
     \<and> (\<forall>e \<in> set new. classId e = cs_classId row \<and> subjectId e = cs_subjectId row)
     \<and> length new \<le> (case find (\<lambda>s. s_id s = cs_subjectId row) (subjects cat) of
                        None \<Rightarrow> 0
                      | Some subject \<Rightarrow> nat (s_weeklyHours subject))"
proof (cases "find (\<lambda>s. s_id s = cs_subjectId row) (subjects cat)")
  case None
  then show ?thesis by (simp add: processClassSubject_def)
next
  case (Some subject)
  show ?thesis
  proof (cases "find (\<lambda>c. c_id c = cs_classId row) (classes cat)")
    case None
    then show ?thesis using Some by (simp add: processClassSubject_def)
  next
    case (Some classObj)
    let ?n = "s_weeklyHours subject"
    let ?slots = "findSuitableTimeSlots cat st row ?n opts"
    let ?st1 = "if int (length ?slots) < ?n
                then st\<lparr>conflicts := conflicts st @ [shortfallMessage ?n subject classObj]\<rparr>
                else st"
    let ?tried = "take (nat (min (int (length ?slots)) ?n)) ?slots"
    have run: "processClassSubject cat opts st row
               = assignSlots cat opts subject classObj row ?st1 ?tried"
      using \<open>find (\<lambda>s. s_id s = cs_subjectId row) (subjects cat) = Some subject\<close> Some
      by (simp add: processClassSubject_def Let_def)
    obtain new where app:
      "generatedEntries (assignSlots cat opts subject classObj row ?st1 ?tried)
         = generatedEntries ?st1 @ new"
      "length new \<le> length ?tried"
      "\<forall>e \<in> set new. classId e = cs_classId row \<and> subjectId e = cs_subjectId row"
      using assignSlots_appends [of cat opts subject classObj row ?st1 ?tried] by blast
    have "generatedEntries (processClassSubject cat opts st row) = generatedEntries st @ new"
      using run app(1) by simp
    moreover have "length new \<le> nat ?n"
      using app(2) by simp
    ultimately show ?thesis
      using app(3) \<open>find (\<lambda>s. s_id s = cs_subjectId row) (subjects cat) = Some subject\<close>
      by auto
  qed
qed

text \<open>
  Over the rows of a run: the entries of one class and subject are at most
  \<^verbatim>\<open>weeklyHours\<close> for each row that lists the pair.
\<close>

lemma foldl_processClassSubject_count:
  assumes subject: "find (\<lambda>x. s_id x = s) (subjects cat) = Some subject"
  shows "length (filter (\<lambda>e. classId e = c \<and> subjectId e = s)
           (generatedEntries (foldl (processClassSubject cat opts) st rows)))
         \<le> length (filter (\<lambda>e. classId e = c \<and> subjectId e = s) (generatedEntries st))
           + length (filter (\<lambda>r. cs_classId r = c \<and> cs_subjectId r = s) rows)
             * nat (s_weeklyHours subject)"
proof (induction rows arbitrary: st)
  case Nil
  then show ?case by simp
next
  case (Cons row rows)
  let ?P = "\<lambda>e. classId e = c \<and> subjectId e = s"
  let ?Q = "\<lambda>r. cs_classId r = c \<and> cs_subjectId r = s"
  let ?k = "nat (s_weeklyHours subject)"
  let ?st1 = "processClassSubject cat opts st row"
  obtain new where new:
    "generatedEntries ?st1 = generatedEntries st @ new"
    "\<forall>e \<in> set new. classId e = cs_classId row \<and> subjectId e = cs_subjectId row"
    "length new \<le> (case find (\<lambda>x. s_id x = cs_subjectId row) (subjects cat) of
                      None \<Rightarrow> 0 | Some sub \<Rightarrow> nat (s_weeklyHours sub))"
    using processClassSubject_appends [of cat opts st row] by blast
  have "length (filter ?P (generatedEntries (foldl (processClassSubject cat opts) ?st1 rows)))
        \<le> length (filter ?P (generatedEntries ?st1)) + length (filter ?Q rows) * ?k"
    using Cons.IH [of ?st1] .
  then have base:
    "length (filter ?P (generatedEntries (foldl (processClassSubject cat opts) ?st1 rows)))
        \<le> length (filter ?P (generatedEntries st)) + length (filter ?P new)
          + length (filter ?Q rows) * ?k"
    using new(1) by simp
  have fold: "foldl (processClassSubject cat opts) st (row # rows)
              = foldl (processClassSubject cat opts) ?st1 rows"
    by simp
  show ?case
  proof (cases "?Q row")
    case True
    then have "length new \<le> ?k" using new(3) subject by simp
    then have mine: "length (filter ?P new) \<le> ?k"
      using length_filter_le [of ?P new] by linarith
    have "filter ?Q (row # rows) = row # filter ?Q rows" using True by simp
    then have "length (filter ?Q (row # rows)) * ?k = ?k + length (filter ?Q rows) * ?k"
      by simp
    then show ?thesis unfolding fold using base mine by linarith
  next
    case False
    then have none: "filter ?P new = []" using new(2) by (auto simp: filter_empty_conv)
    have "filter ?Q (row # rows) = filter ?Q rows" using False by simp
    then have "length (filter ?Q (row # rows)) * ?k = length (filter ?Q rows) * ?k"
      by simp
    then show ?thesis unfolding fold using base none by simp
  qed
qed

lemma generateSchedule_count:
  assumes "find (\<lambda>x. s_id x = s) (subjects cat) = Some subject"
  shows "length (filter (\<lambda>e. classId e = c \<and> subjectId e = s)
           (timetableEntries (generateSchedule cat opts)))
         \<le> length (filter (\<lambda>r. cs_classId r = c \<and> cs_subjectId r = s) (classSubjects cat))
           * nat (s_weeklyHours subject)"
proof (cases "classSubjects cat = []")
  case True
  then show ?thesis by (simp add: generateSchedule_def)
next
  case False
  have "generatedEntries (initialRun cat) = []" by (simp add: initialRun_def)
  then show ?thesis
    using False foldl_processClassSubject_count [OF assms, of c opts "initialRun cat" "classSubjects cat"]
    by (simp add: generateSchedule_def runLoop_def Let_def)
qed

text \<open>
  Claim C5 bounds the entries of a class-subject pairing by \<^verbatim>\<open>weeklyHours\<close>. In
  \<open>duplicateCatalog\<close> the pairing of class 7A with Math, one period a week, is listed by
  two rows, and the run returns two Math entries for 7A, with no message. In
  \<open>negativeHoursCatalog\<close> the subject has \<^verbatim>\<open>weeklyHours\<close> \<open>-2\<close>, and the number of
  entries, 0, is above it.
\<close>

theorem pairing_entries_counterexample:
  "classSubjects duplicateCatalog = [assignment 1 1, assignment 1 1]
   \<and> subjects duplicateCatalog = [\<lparr>s_id = 1, s_name = ''Math'', s_weeklyHours = 1\<rparr>]
   \<and> timetableEntries (generateSchedule duplicateCatalog defaultOptions) =
       [entryOf 1 1 1 (Some 1) 1, entryOf 1 1 1 (Some 1) 3]
   \<and> res_conflicts (generateSchedule duplicateCatalog defaultOptions) = []
   \<and> \<not> int (length (timetableEntries (generateSchedule duplicateCatalog defaultOptions))) \<le> 1
   \<and> subjects negativeHoursCatalog = [\<lparr>s_id = 1, s_name = ''Math'', s_weeklyHours = - 2\<rparr>]
   \<and> timetableEntries (generateSchedule negativeHoursCatalog defaultOptions) = []
   \<and> \<not> int (length (timetableEntries (generateSchedule negativeHoursCatalog defaultOptions)))
         \<le> - 2"
proof -
  have d1: "classSubjects duplicateCatalog = [assignment 1 1, assignment 1 1]"
    and d2: "subjects duplicateCatalog = [\<lparr>s_id = 1, s_name = ''Math'', s_weeklyHours = 1\<rparr>]"
    by (simp_all add: duplicateCatalog_def)
  have d3: "timetableEntries (generateSchedule duplicateCatalog defaultOptions) =
              [entryOf 1 1 1 (Some 1) 1, entryOf 1 1 1 (Some 1) 3]"
    by code_simp
  have d4: "res_conflicts (generateSchedule duplicateCatalog defaultOptions) = []"
    by code_simp
  have n1: "subjects negativeHoursCatalog = [\<lparr>s_id = 1, s_name = ''Math'', s_weeklyHours = - 2\<rparr>]"
    by (simp add: negativeHoursCatalog_def)
  have n2: "timetableEntries (generateSchedule negativeHoursCatalog defaultOptions) = []"
    by code_simp
  show ?thesis
    unfolding d3 n2 using d1 d2 d4 n1 by simp
qed

text \<open>
  Claim C5, as the code has it. The entries a run returns for a class-subject pairing are
  at most \<^verbatim>\<open>weeklyHours\<close> (a negative number counting as 0) for each row of
  \<^verbatim>\<open>class_subjects\<close> that lists the pairing: at most \<^verbatim>\<open>weeklyHours\<close> when the pairing
  is listed once. Processing one row (its subject and class being in the catalog) appends
  at most that many entries, all of the row's class and subject; and when the slot finder
  returns fewer slots than \<^verbatim>\<open>weeklyHours\<close>, the shortfall message, which names the
  subject and the class, is appended to \<^verbatim>\<open>conflicts\<close> before any slot is tried: the
  slots are tried from the state that has the message already, and what follows it in
  \<^verbatim>\<open>conflicts\<close> are the messages of the slots tried.
\<close>

theorem pairing_entries_bounded:
  assumes "find (\<lambda>s. s_id s = cs_subjectId classSubject) (subjects cat) = Some subject"
    and "find (\<lambda>c. c_id c = cs_classId classSubject) (classes cat) = Some classObj"
  shows "length (filter (\<lambda>e. classId e = cs_classId classSubject
                              \<and> subjectId e = cs_subjectId classSubject)
           (timetableEntries (generateSchedule cat opts)))
         \<le> length (filter (\<lambda>r. cs_classId r = cs_classId classSubject
                                \<and> cs_subjectId r = cs_subjectId classSubject)
             (classSubjects cat))
           * nat (s_weeklyHours subject)
   \<and> (\<exists>new.
     generatedEntries (processClassSubject cat opts st classSubject) = generatedEntries st @ new
     \<and> length new \<le> nat (s_weeklyHours subject)
     \<and> (\<forall>e \<in> set new. classId e = cs_classId classSubject
                       \<and> subjectId e = cs_subjectId classSubject)
     \<and> (int (length (findSuitableTimeSlots cat st classSubject (s_weeklyHours subject) opts))
          < s_weeklyHours subject \<longrightarrow>
        processClassSubject cat opts st classSubject =
          assignSlots cat opts subject classObj classSubject
            (st\<lparr>conflicts := conflicts st
               @ [''Cannot schedule all '' @ showInt (s_weeklyHours subject) @ '' periods for ''
                    @ s_name subject @ '' in '' @ c_name classObj]\<rparr>)
            (findSuitableTimeSlots cat st classSubject (s_weeklyHours subject) opts)
        \<and> (\<exists>rest.
           conflicts (processClassSubject cat opts st classSubject) =
             conflicts st
             @ [''Cannot schedule all '' @ showInt (s_weeklyHours subject) @ '' periods for ''
                  @ s_name subject @ '' in '' @ c_name classObj]
             @ rest
           \<and> (\<forall>m \<in> set rest.
                \<exists>slot \<in> set (findSuitableTimeSlots cat st classSubject (s_weeklyHours subject) opts).
                  m = unresolvableMessage subject classObj slot))))"
proof -
  let ?n = "s_weeklyHours subject"
  let ?slots = "findSuitableTimeSlots cat st classSubject ?n opts"
  let ?st1 = "if int (length ?slots) < ?n
              then st\<lparr>conflicts := conflicts st @ [shortfallMessage ?n subject classObj]\<rparr>
              else st"
  let ?tried = "take (nat (min (int (length ?slots)) ?n)) ?slots"
  have whole: "length (filter (\<lambda>e. classId e = cs_classId classSubject
                              \<and> subjectId e = cs_subjectId classSubject)
           (timetableEntries (generateSchedule cat opts)))
         \<le> length (filter (\<lambda>r. cs_classId r = cs_classId classSubject
                                \<and> cs_subjectId r = cs_subjectId classSubject)
             (classSubjects cat))
           * nat ?n"
    by (rule generateSchedule_count [OF assms(1)])
  have run: "processClassSubject cat opts st classSubject
             = assignSlots cat opts subject classObj classSubject ?st1 ?tried"
    using assms(1,2) by (simp add: processClassSubject_def Let_def)
  obtain new rest where app:
    "generatedEntries (assignSlots cat opts subject classObj classSubject ?st1 ?tried)
       = generatedEntries ?st1 @ new"
    "conflicts (assignSlots cat opts subject classObj classSubject ?st1 ?tried)
       = conflicts ?st1 @ rest"
    "length new \<le> length ?tried"
    "\<forall>e \<in> set new. classId e = cs_classId classSubject \<and> subjectId e = cs_subjectId classSubject"
    "\<forall>m \<in> set rest. \<exists>slot \<in> set ?tried. m = unresolvableMessage subject classObj slot"
    using assignSlots_appends [of cat opts subject classObj classSubject ?st1 ?tried] by blast
  have entries: "generatedEntries (processClassSubject cat opts st classSubject)
                 = generatedEntries st @ new"
    using run app(1) by simp
  have bound: "length new \<le> nat ?n"
    using app(3) by simp
  have from_slots: "\<forall>m \<in> set rest. \<exists>slot \<in> set ?slots. m = unresolvableMessage subject classObj slot"
    using app(5) by (meson in_set_takeD)
  have short: "int (length ?slots) < ?n \<Longrightarrow>
      conflicts (processClassSubject cat opts st classSubject) =
        conflicts st
        @ [''Cannot schedule all '' @ showInt ?n @ '' periods for ''
             @ s_name subject @ '' in '' @ c_name classObj]
        @ rest"
    using run app(2) by (simp add: shortfallMessage_def)
  have first: "int (length ?slots) < ?n \<Longrightarrow>
      processClassSubject cat opts st classSubject =
        assignSlots cat opts subject classObj classSubject
          (st\<lparr>conflicts := conflicts st
             @ [''Cannot schedule all '' @ showInt ?n @ '' periods for ''
                  @ s_name subject @ '' in '' @ c_name classObj]\<rparr>)
          ?slots"
    using run by (simp add: shortfallMessage_def)
  have pass: "\<exists>new.
     generatedEntries (processClassSubject cat opts st classSubject) = generatedEntries st @ new
     \<and> length new \<le> nat ?n
     \<and> (\<forall>e \<in> set new. classId e = cs_classId classSubject
                       \<and> subjectId e = cs_subjectId classSubject)
     \<and> (int (length ?slots) < ?n \<longrightarrow>
        processClassSubject cat opts st classSubject =
          assignSlots cat opts subject classObj classSubject
            (st\<lparr>conflicts := conflicts st
               @ [''Cannot schedule all '' @ showInt ?n @ '' periods for ''
                    @ s_name subject @ '' in '' @ c_name classObj]\<rparr>)
            ?slots
        \<and> (\<exists>rest.
           conflicts (processClassSubject cat opts st classSubject) =
             conflicts st
             @ [''Cannot schedule all '' @ showInt ?n @ '' periods for ''
                  @ s_name subject @ '' in '' @ c_name classObj]
             @ rest
           \<and> (\<forall>m \<in> set rest.
                \<exists>slot \<in> set ?slots. m = unresolvableMessage subject classObj slot)))"
    using entries bound app(4) short from_slots first by blast
  show ?thesis using whole pass by blast
qed

theorem pairing_entries_bounded_witness:
  "find (\<lambda>s. s_id s = cs_subjectId (assignment 1 1)) (subjects shortfallCatalog)
     = Some \<lparr>s_id = 1, s_name = ''Math'', s_weeklyHours = 3\<rparr>
   \<and> find (\<lambda>c. c_id c = cs_classId (assignment 1 1)) (classes shortfallCatalog)
     = Some \<lparr>c_id = 1, c_name = ''7A''\<rparr>
   \<and> length (findSuitableTimeSlots shortfallCatalog (initialRun shortfallCatalog)
        (assignment 1 1) 3 defaultOptions) = 2
   \<and> generatedEntries (processClassSubject shortfallCatalog defaultOptions
        (initialRun shortfallCatalog) (assignment 1 1))
     = [entryOf 1 1 1 (Some 1) 1, entryOf 1 1 1 (Some 1) 2]
   \<and> length (filter (\<lambda>e. classId e = 1 \<and> subjectId e = 1)
        (timetableEntries (generateSchedule shortfallCatalog defaultOptions))) \<le> 1 * 3
   \<and> (\<exists>new rest.
        generatedEntries (processClassSubject shortfallCatalog defaultOptions
           (initialRun shortfallCatalog) (assignment 1 1)) = [] @ new
        \<and> length new \<le> 3
        \<and> conflicts (processClassSubject shortfallCatalog defaultOptions
             (initialRun shortfallCatalog) (assignment 1 1))
          = [] @ [''Cannot schedule all 3 periods for Math in 7A''] @ rest)"
proof -
  let ?subject = "\<lparr>s_id = 1, s_name = ''Math'', s_weeklyHours = 3\<rparr>"
  let ?classObj = "\<lparr>c_id = 1, c_name = ''7A''\<rparr>"
  let ?st = "initialRun shortfallCatalog"
  have s: "find (\<lambda>s. s_id s = cs_subjectId (assignment 1 1)) (subjects shortfallCatalog)
             = Some ?subject"
    by code_simp
  have c: "find (\<lambda>c. c_id c = cs_classId (assignment 1 1)) (classes shortfallCatalog)
             = Some ?classObj"
    by code_simp
  have n: "length (findSuitableTimeSlots shortfallCatalog ?st (assignment 1 1) 3 defaultOptions) = 2"
    by code_simp
  have e: "generatedEntries (processClassSubject shortfallCatalog defaultOptions ?st
             (assignment 1 1)) = [entryOf 1 1 1 (Some 1) 1, entryOf 1 1 1 (Some 1) 2]"
    by code_simp
  have i: "generatedEntries ?st = []" "conflicts ?st = []"
    by (simp_all add: initialRun_def)
  have m: "''Cannot schedule all '' @ showInt (s_weeklyHours ?subject) @ '' periods for ''
             @ s_name ?subject @ '' in '' @ c_name ?classObj
           = ''Cannot schedule all 3 periods for Math in 7A''"
    by code_simp
  have rows: "length (filter (\<lambda>r. cs_classId r = 1 \<and> cs_subjectId r = 1)
                (classSubjects shortfallCatalog)) = 1"
    by code_simp
  have ids: "cs_classId (assignment 1 1) = 1" "cs_subjectId (assignment 1 1) = 1"
    by (simp_all add: assignment_def)
  have short: "int (length (findSuitableTimeSlots shortfallCatalog ?st (assignment 1 1)
                 (s_weeklyHours ?subject) defaultOptions)) < s_weeklyHours ?subject"
    using n by simp
  note inst = pairing_entries_bounded [OF s c, of defaultOptions ?st]
  have "length (filter (\<lambda>e. classId e = cs_classId (assignment 1 1)
                             \<and> subjectId e = cs_subjectId (assignment 1 1))
          (timetableEntries (generateSchedule shortfallCatalog defaultOptions)))
        \<le> length (filter (\<lambda>r. cs_classId r = cs_classId (assignment 1 1)
                               \<and> cs_subjectId r = cs_subjectId (assignment 1 1))
            (classSubjects shortfallCatalog))
          * nat (s_weeklyHours ?subject)"
    using inst by blast
  then have whole: "length (filter (\<lambda>e. classId e = 1 \<and> subjectId e = 1)
        (timetableEntries (generateSchedule shortfallCatalog defaultOptions))) \<le> 1 * 3"
    by (simp add: ids rows)
  obtain new where new:
    "generatedEntries (processClassSubject shortfallCatalog defaultOptions ?st (assignment 1 1))
       = generatedEntries ?st @ new"
    "length new \<le> nat (s_weeklyHours ?subject)"
    "\<exists>rest. conflicts (processClassSubject shortfallCatalog defaultOptions ?st (assignment 1 1))
       = conflicts ?st
         @ [''Cannot schedule all '' @ showInt (s_weeklyHours ?subject) @ '' periods for ''
              @ s_name ?subject @ '' in '' @ c_name ?classObj]
         @ rest"
    using inst short by blast
  then obtain rest where rest:
    "conflicts (processClassSubject shortfallCatalog defaultOptions ?st (assignment 1 1))
       = [] @ [''Cannot schedule all 3 periods for Math in 7A''] @ rest"
    unfolding m i by blast
  have "generatedEntries (processClassSubject shortfallCatalog defaultOptions ?st
          (assignment 1 1)) = [] @ new \<and> length new \<le> 3"
    using new(1,2) unfolding i by simp
  then show ?thesis using s c n e whole rest by blast
qed

subsection \<open>The constraint set has no effect\<close>

lemma scanPeriods_constraints:
  "scanPeriods (cat\<lparr>constraints := ks\<rparr>) st opts classSubject periodsNeeded availableTeachers tps acc
   = scanPeriods cat st opts classSubject periodsNeeded availableTeachers tps acc"
  by (induction tps arbitrary: acc)
     (simp_all add: findSuitableRoom_def findAnyRoom_def split: option.splits)

lemma findSuitableTimeSlots_constraints:
  "findSuitableTimeSlots (cat\<lparr>constraints := ks\<rparr>) st classSubject periodsNeeded opts
   = findSuitableTimeSlots cat st classSubject periodsNeeded opts"
  by (simp add: findSuitableTimeSlots_def scanPeriods_constraints getAvailableTeachers_def
        getSubjectTeachers_def)

lemma alternativeTeacher_constraints:
  "alternativeTeacher (cat\<lparr>constraints := ks\<rparr>) st entry = alternativeTeacher cat st entry"
  by (simp add: alternativeTeacher_def getAvailableTeachers_def getSubjectTeachers_def)

lemma resolveRoom_constraints:
  "resolveRoom (cat\<lparr>constraints := ks\<rparr>) st entry = resolveRoom cat st entry"
  by (simp add: resolveRoom_def alternativeRoom_def)

lemma resolveConflicts_constraints:
  "resolveConflicts (cat\<lparr>constraints := ks\<rparr>) st entry = resolveConflicts cat st entry"
  by (simp add: resolveConflicts_def alternativeTeacher_constraints resolveRoom_constraints
        split: option.splits)

text \<open>What the loop body does, the validator being always satisfied.\<close>

lemma commitSlot_unconstrained:
  "commitSlot cat opts subject classObj classSubject st slot =
     (let entry = candidateEntry classSubject slot;
          conflictCheck = checkConflicts st entry
      in if teacherConflicts conflictCheck \<or> roomConflicts conflictCheck
            \<or> classConflicts conflictCheck
         then
           (case resolveConflicts cat st entry of
              Some resolved \<Rightarrow>
                st\<lparr>generatedEntries := generatedEntries st @ [resolved],
                   conflictsResolved := conflictsResolved st + 1\<rparr>
            | None \<Rightarrow>
                st\<lparr>conflicts := conflicts st @ [unresolvableMessage subject classObj slot]\<rparr>)
         else st\<lparr>generatedEntries := generatedEntries st @ [entry]\<rparr>)"
  by (simp add: commitSlot_def validateConstraints_holds Let_def split: option.splits)

lemma processClassSubject_constraints:
  "processClassSubject (cat\<lparr>constraints := ks\<rparr>) opts' st classSubject
   = processClassSubject cat opts st classSubject"
  if "prioritizeMorningClasses opts' = prioritizeMorningClasses opts"
proof -
  have slots: "findSuitableTimeSlots cat st classSubject n opts'
               = findSuitableTimeSlots cat st classSubject n opts" for n
  proof -
    have cmp: "comparePeriods opts' = comparePeriods opts"
      using that by (simp add: comparePeriods_def fun_eq_iff)
    have a: "sortedTimePeriods opts' = sortedTimePeriods opts"
      by (rule ext) (simp add: sortedTimePeriods_def cmp)
    have b: "firstTeacher st opts' = firstTeacher st opts"
      by (simp add: firstTeacher_def checkTeacherWorkloadConstraints_def fun_eq_iff)
    have "scanPeriods cat st opts' classSubject n ts tps acc
          = scanPeriods cat st opts classSubject n ts tps acc" for ts tps acc
      by (induction tps arbitrary: acc) (simp_all add: b split: option.splits)
    then show ?thesis by (simp add: findSuitableTimeSlots_def a)
  qed
  have body: "assignSlot (cat\<lparr>constraints := ks\<rparr>) opts' subject classObj classSubject
              = assignSlot cat opts subject classObj classSubject" for subject classObj
    by (simp add: assignSlot_def commitSlot_unconstrained resolveConflicts_constraints Let_def
          fun_eq_iff)
  show ?thesis
    by (simp add: processClassSubject_def assignSlots_def body slots
          findSuitableTimeSlots_constraints Let_def split: option.splits)
qed

text \<open>
  Claim C3, as the code has it: the validator accepts every entry, whatever the constraints
  and the options, so a constraint on a teacher does not make the entries of that teacher
  invalid. The loop body hands a candidate to \<^verbatim>\<open>resolveConflicts\<close>, or reports it as
  unresolved, on a teacher, room or class conflict only; and the result of a run is the
  same for every constraint set and every setting of the two constraint options.
\<close>

theorem constraints_never_block:
  "validateConstraints cat entry opts
   \<and> commitSlot cat opts subject classObj classSubject st slot =
       (let candidate = candidateEntry classSubject slot;
            conflictCheck = checkConflicts st candidate
        in if teacherConflicts conflictCheck \<or> roomConflicts conflictCheck
              \<or> classConflicts conflictCheck
           then
             (case resolveConflicts cat st candidate of
                Some resolved \<Rightarrow>
                  st\<lparr>generatedEntries := generatedEntries st @ [resolved],
                     conflictsResolved := conflictsResolved st + 1\<rparr>
              | None \<Rightarrow>
                  st\<lparr>conflicts := conflicts st @ [unresolvableMessage subject classObj slot]\<rparr>)
           else st\<lparr>generatedEntries := generatedEntries st @ [candidate]\<rparr>)
   \<and> generateSchedule (cat\<lparr>constraints := ks\<rparr>)
         (opts\<lparr>enforceHardConstraints := eh, respectSoftConstraints := rs\<rparr>)
       = generateSchedule cat opts"
proof (intro conjI)
  show "validateConstraints cat entry opts"
    by (rule validateConstraints_holds)
next
  show "commitSlot cat opts subject classObj classSubject st slot =
       (let candidate = candidateEntry classSubject slot;
            conflictCheck = checkConflicts st candidate
        in if teacherConflicts conflictCheck \<or> roomConflicts conflictCheck
              \<or> classConflicts conflictCheck
           then
             (case resolveConflicts cat st candidate of
                Some resolved \<Rightarrow>
                  st\<lparr>generatedEntries := generatedEntries st @ [resolved],
                     conflictsResolved := conflictsResolved st + 1\<rparr>
              | None \<Rightarrow>
                  st\<lparr>conflicts := conflicts st @ [unresolvableMessage subject classObj slot]\<rparr>)
           else st\<lparr>generatedEntries := generatedEntries st @ [candidate]\<rparr>)"
    by (rule commitSlot_unconstrained)
next
  let ?opts' = "opts\<lparr>enforceHardConstraints := eh, respectSoftConstraints := rs\<rparr>"
  have "processClassSubject (cat\<lparr>constraints := ks\<rparr>) ?opts' = processClassSubject cat opts"
    by (simp add: fun_eq_iff processClassSubject_constraints)
  then have "runLoop (cat\<lparr>constraints := ks\<rparr>) ?opts' = runLoop cat opts"
    by (simp add: runLoop_def initialRun_def)
  then show "generateSchedule (cat\<lparr>constraints := ks\<rparr>) ?opts' = generateSchedule cat opts"
    by (simp add: generateSchedule_def)
qed

subsection \<open>The tracker at the start of a run\<close>

text \<open>Every teacher of the catalog starts a run with a zeroed record.\<close>

lemma initializeWorkloadTracking_zero:
  "t \<in> set ts \<Longrightarrow> initializeWorkloadTracking ts (t_id t) = Some (zeroWorkload (t_id t))"
  unfolding initializeWorkloadTracking_def
  by (induction ts rule: rev_induct) auto

lemma initialRun_zero:
  "t \<in> set (teachers cat) \<Longrightarrow>
   teacherWorkloads (initialRun cat) (t_id t) = Some (zeroWorkload (t_id t))"
  by (simp add: initialRun_def initializeWorkloadTracking_zero)

end
